theory Spec2Isabelle
  imports Main
begin

section \<open>Python values\<close>

text \<open>
  A Python \<open>str\<close> is a sequence of Unicode code points, so a string is a list of code
  points. ASCII text is written \<open>str ''...''\<close>; a character outside ASCII is written as its
  code point (\<open>0x8A02\<close> is U+8A02).
\<close>

type_synonym ustr = "nat list"

definition str :: "string \<Rightarrow> ustr" where
  "str cs = map of_char cs"

text \<open>
  The dict, list and scalar literals of the module. A dict keeps its items in insertion
  order, as Python's does; all keys of the module's dicts are strings.
\<close>

datatype pyval =
    PyNone
  | PyBool bool
  | PyInt int
  | PyStr ustr
  | PyList "pyval list"
  | PyDict "(ustr \<times> pyval) list"

text \<open>\<open>d.get(k)\<close> on a value: \<open>None\<close> when the value is no dict or has no such key.\<close>

fun dict_get :: "pyval \<Rightarrow> ustr \<Rightarrow> pyval option" where
  "dict_get (PyDict kvs) k = map_of kvs k"
| "dict_get _ k = None"

text \<open>Following a path of keys through nested dicts.\<close>

fun get_path :: "pyval \<Rightarrow> ustr list \<Rightarrow> pyval option" where
  "get_path v [] = Some v"
| "get_path v (k # ks) = (case dict_get v k of None \<Rightarrow> None | Some v' \<Rightarrow> get_path v' ks)"


section \<open>The taxonomies\<close>

text \<open>Lines 9-23: the module-level dicts \<open>INTENT\<close> and \<open>SUBINTENT\<close>, code to label.\<close>

definition INTENT :: "(ustr \<times> ustr) list" where
  "INTENT = [
     (str ''A'', [0x8A02, 0x55AE, 0x76F8, 0x95DC]),
     (str ''B'', [0x7522, 0x54C1, 0x8207, 0x670D, 0x52D9, 0x76F8, 0x95DC])]"

definition SUBINTENT :: "(ustr \<times> ustr) list" where
  "SUBINTENT = [
     (str ''A1'', [0x67E5, 0x8A62, 0x8A02, 0x55AE, 0x72C0, 0x614B] @ str ''/'' @ [0x9032, 0x5EA6]),
     (str ''A2'', [0x4FEE, 0x6539, 0x8A02, 0x55AE, 0x5167, 0x5BB9]),
     (str ''A3'', [0x53D6, 0x6D88, 0x8A02, 0x55AE]),
     (str ''A4'', [0x67E5, 0x8A62, 0x767C, 0x7968] @ str ''/'' @ [0x6536, 0x64DA]),
     (str ''B1'', [0x8A62, 0x554F, 0x7522, 0x54C1, 0x8CC7, 0x8A0A]),
     (str ''B2'', [0x8A62, 0x554F, 0x5EAB, 0x5B58, 0x72C0, 0x6CC1]),
     (str ''B3'', [0x8A62, 0x554F, 0x50F9, 0x683C, 0x8207, 0x512A, 0x60E0]),
     (str ''B4'', [0x6BD4, 0x8F03, 0x7522, 0x54C1])]"

section \<open>The tool schema\<close>

text \<open>
  Lines 100-182: \<open>function_calling_example()\<close> builds the dict literal
  \<open>update_session_decl\<close> and returns it. It takes no argument and reads nothing.
\<close>

definition function_calling_example :: pyval where
  "function_calling_example =
  PyDict [
      (str ''name'',
       PyStr (str ''update_session'')),
      (str ''description'',
       PyStr ([0x4F9D, 0x64DA, 0x96FB, 0x5546, 0x5C0D, 0x8A71, 0xFF0C, 0x66F4, 0x65B0, 0x6574, 0x9AD4, 0x6458, 0x8981, 0x3001, 0x5206, 0x6578, 0x8207, 0x5EFA, 0x8B70, 0x56DE, 0x8986, 0x3002, 0x9019, 0x662F, 0x4E3B, 0x8981, 0x7684, 0x5DE5, 0x5177])),
      (str ''parameters'',
       PyDict [
         (str ''type'',
          PyStr (str ''object'')),
         (str ''properties'',
          PyDict [
            (str ''session_end'',
             PyDict [
               (str ''type'',
                PyStr (str ''boolean'')),
               (str ''description'',
                PyStr ([0x662F, 0x5426, 0x7D50, 0x675F, 0x5C0D, 0x8A71, 0xFF0C, 0x5982, 0x679C, 0x70BA] @ str '' True'' @ [0xFF0C, 0x5247, 0x6703, 0x5C07, 0x5C0D, 0x8A71, 0x7D50, 0x675F, 0xFF0C, 0x4E26, 0x56DE, 0x50B3, 0x6574, 0x9AD4, 0x6458, 0x8981, 0x3001, 0x5206, 0x6578, 0x8207, 0x5EFA, 0x8B70, 0x56DE, 0x8986, 0x3002]))]),
            (str ''session_summary_user'',
             PyDict [
               (str ''type'',
                PyStr (str ''string'')),
               (str ''description'',
                PyStr ([0x5F9E, 0x904E, 0x5F80, 0x5C0D, 0x8A71, 0x7D00, 0x9304, 0x6458, 0x8981, 0x5C0D, 0x8A71, 0x5167, 0x5BB9, 0x3002]))]),
            (str ''consumer_sentiment_score'',
             PyDict [
               (str ''type'',
                PyStr (str ''integer''))]),
            (str ''consumer_urgency_score'',
             PyDict [
               (str ''type'',
                PyStr (str ''integer''))]),
            (str ''consumer_purchase_potential_score'',
             PyDict [
               (str ''type'',
                PyStr (str ''integer''))]),
            (str ''potential_interest_products'',
             PyDict [
               (str ''type'',
                PyStr (str ''array'')),
               (str ''items'',
                PyDict [
                  (str ''type'',
                   PyStr (str ''string''))])]),
            (str ''intent'',
             PyDict [
               (str ''type'',
                PyStr (str ''string'')),
               (str ''description'',
                PyStr ([0x5C07, 0x4F7F, 0x7528, 0x8005, 0x6700, 0x65B0, 0x7684, 0x5C0D, 0x8A71, 0x5206, 0x985E, 0x5230, 0x4EE5, 0x4E0B, 0x5176, 0x4E2D, 0x4E00, 0x500B, 0x4E3B, 0x8981, 0x610F, 0x5716, 0xFF1A] @ str ''A. '' @ [0x8A02, 0x55AE, 0x76F8, 0x95DC] @ str '', B. '' @ [0x7522, 0x54C1, 0x8207, 0x670D, 0x52D9, 0x76F8, 0x95DC])),
               (str ''enum'',
                PyList [
                  PyStr (str ''A. '' @ [0x8A02, 0x55AE, 0x76F8, 0x95DC]),
                  PyStr (str ''B. '' @ [0x7522, 0x54C1, 0x8207, 0x670D, 0x52D9, 0x76F8, 0x95DC])])]),
            (str ''subintent'',
             PyDict [
               (str ''type'',
                PyStr (str ''array'')),
               (str ''items'',
                PyDict [
                  (str ''type'',
                   PyStr (str ''string''))]),
               (str ''maxItems'',
                PyInt 3),
               (str ''description'',
                PyStr ([0x6839, 0x64DA, 0x4E3B, 0x8981, 0x610F, 0x5716, 0xFF0C, 0x5217, 0x51FA, 0x76F8, 0x95DC, 0x7684, 0x5B50, 0x610F, 0x5716, 0xFF08, 0x6700, 0x591A] @ str ''3'' @ [0x500B, 0xFF09, 0x3002])),
               (str ''enum'',
                PyList [
                  PyStr (str ''A1. '' @ [0x67E5, 0x8A62, 0x8A02, 0x55AE, 0x72C0, 0x614B] @ str ''/'' @ [0x9032, 0x5EA6]),
                  PyStr (str ''A2. '' @ [0x4FEE, 0x6539, 0x8A02, 0x55AE, 0x5167, 0x5BB9]),
                  PyStr (str ''A3. '' @ [0x53D6, 0x6D88, 0x8A02, 0x55AE]),
                  PyStr (str ''A4. '' @ [0x67E5, 0x8A62, 0x767C, 0x7968] @ str ''/'' @ [0x6536, 0x64DA]),
                  PyStr (str ''B1. '' @ [0x8A62, 0x554F, 0x7522, 0x54C1, 0x8CC7, 0x8A0A]),
                  PyStr (str ''B2. '' @ [0x8A62, 0x554F, 0x5EAB, 0x5B58, 0x72C0, 0x6CC1]),
                  PyStr (str ''B3. '' @ [0x8A62, 0x554F, 0x50F9, 0x683C, 0x8207, 0x512A, 0x60E0]),
                  PyStr (str ''B4. '' @ [0x6BD4, 0x8F03, 0x7522, 0x54C1])])]),
            (str ''suggested_responses'',
             PyDict [
               (str ''type'',
                PyStr (str ''array'')),
               (str ''items'',
                PyDict [
                  (str ''type'',
                   PyStr (str ''string''))]),
               (str ''description'',
                PyStr ([0x5EFA, 0x8B70, 0x56DE, 0x8986, 0xFF0C, 0x53EF, 0x4EE5, 0x662F, 0x591A, 0x500B, 0x5B57, 0x4E32, 0xFF0C, 0x6700, 0x591A] @ str ''3'' @ [0x500B, 0x3002])),
               (str ''minItems'',
                PyInt 1),
               (str ''maxItems'',
                PyInt 3)]),
            (str ''customer_conversation_tags'',
             PyDict [
               (str ''type'',
                PyStr (str ''array'')),
               (str ''items'',
                PyDict [
                  (str ''type'',
                   PyStr (str ''string''))]),
               (str ''description'',
                PyStr ([0x57FA, 0x65BC, 0x904E, 0x5F80, 0x5C0D, 0x8A71, 0x6A19, 0x7C64, 0x548C, 0x65B0, 0x8A0A, 0x606F, 0x66F4, 0x65B0, 0x5BA2, 0x6236, 0x5C0D, 0x8A71, 0x6A19, 0x7C64, 0x3002, 0x5982, 0x679C, 0x6C92, 0x6709, 0x5408, 0x9069, 0x7684, 0x65E2, 0x6709, 0x6A19, 0x7C64, 0xFF0C, 0x8ACB, 0x6839, 0x64DA, 0x5C0D, 0x8A71, 0x5167, 0x5BB9, 0x7522, 0x751F, 0x65B0, 0x7684, 0x6A19, 0x7C64, 0x3002, 0x4FDD, 0x7559, 0x6709, 0x610F, 0x7FA9, 0x7684, 0x820A, 0x6A19, 0x7C64, 0x3002]))])]),
         (str ''required'',
          PyList [
            PyStr (str ''session_end''),
            PyStr (str ''session_summary_user''),
            PyStr (str ''consumer_sentiment_score''),
            PyStr (str ''consumer_urgency_score''),
            PyStr (str ''consumer_purchase_potential_score''),
            PyStr (str ''potential_interest_products''),
            PyStr (str ''intent''),
            PyStr (str ''subintent''),
            PyStr (str ''suggested_responses''),
            PyStr (str ''customer_conversation_tags'')])])]"

section \<open>Reading the schema\<close>

text \<open>The schema of one property of the tool's parameters, and the list under \<open>required\<close>.\<close>

definition property_schema :: "ustr \<Rightarrow> pyval" where
  "property_schema k =
     (case get_path function_calling_example [str ''parameters'', str ''properties'', k] of
        Some v \<Rightarrow> v
      | None \<Rightarrow> PyNone)"

definition required_fields :: "pyval list" where
  "required_fields =
     (case get_path function_calling_example [str ''parameters'', str ''required''] of
        Some (PyList vs) \<Rightarrow> vs
      | _ \<Rightarrow> [])"

text \<open>
  The module declares the schema and validates nothing against it. What the keywords
  \<open>minItems\<close> and \<open>maxItems\<close> of an array schema ask of an array of \<open>n\<close> items is read
  here as JSON Schema defines the two keywords.
\<close>

definition item_count_ok :: "pyval \<Rightarrow> nat \<Rightarrow> bool" where
  "item_count_ok schema n =
     ((case dict_get schema (str ''minItems'') of Some (PyInt m) \<Rightarrow> m \<le> int n | _ \<Rightarrow> True) \<and>
      (case dict_get schema (str ''maxItems'') of Some (PyInt m) \<Rightarrow> int n \<le> m | _ \<Rightarrow> True))"




section \<open>Exceptions\<close>

text \<open>
  The module raises nothing itself and has no \<open>try\<close>: an exception of a call it makes
  ends the running function and reaches the caller. The exceptions are those of the calls
  made: \<open>open\<close> (\<open>FileNotFoundError\<close> for a path that does not exist,
  \<open>PermissionError\<close> for one that may not be read), \<open>json.load\<close>
  (\<open>JSONDecodeError\<close>), \<open>Credentials.from_authorized_user_info\<close>
  (\<open>ValueError\<close>, for missing fields), and whatever the client constructors and
  \<open>generate_content\<close> raise (\<open>LibraryError\<close>, with its message).
\<close>

datatype error =
    FileNotFoundError
  | PermissionError
  | JSONDecodeError
  | ValueError
  | LibraryError ustr

text \<open>
  The two classes of the specification's error taxonomy that concern the credentials file,
  as predicates on the exceptions above.
\<close>

definition FileAccessError :: "error \<Rightarrow> bool" where
  "FileAccessError e = (e = FileNotFoundError \<or> e = PermissionError)"

definition ParseError :: "error \<Rightarrow> bool" where
  "ParseError e = (e = JSONDecodeError \<or> e = ValueError)"

section \<open>Objects and the world outside the module\<close>

text \<open>
  Objects carry an identity (\<open>oid\<close>): two constructions give two objects, also from the
  same arguments. A client object records the keyword arguments it was constructed with;
  \<open>genai.Client\<close> has a \<open>credentials\<close> keyword, which \<open>None\<close> leaves to
  the platform's default credentials.
\<close>

record Credentials =
  cred_oid :: nat
  cred_info :: pyval

record BigqueryClient =
  bq_oid :: nat
  bq_project :: ustr
  bq_credentials :: Credentials

record GenaiClient =
  genai_oid :: nat
  genai_vertexai :: bool
  genai_project :: ustr
  genai_location :: ustr
  genai_credentials :: "Credentials option"

text \<open>A float literal, kept as written: \<open>FloatLit m e\<close> is \<open>m\<close> times ten to the \<open>e\<close>.\<close>

datatype pyfloat = FloatLit int int

text \<open>
  \<open>genai_types.Tool\<close> and \<open>genai_types.GenerateContentConfig\<close> hold the keyword
  arguments they are given; a request is the keyword arguments of \<open>generate_content\<close>.
\<close>

datatype Tool = Tool (function_declarations: "pyval list")

record GenerateContentConfig =
  tools :: "Tool list"
  temperature :: pyfloat

record request =
  model :: ustr
  contents :: ustr
  config :: GenerateContentConfig

datatype file_status = Missing | Unreadable | Readable ustr

text \<open>
  Everything the module calls and does not define, at the time of a call: the filesystem,
  the libraries and the remote service.
  \<^item> \<open>expanduser\<close> is \<open>os.path.expanduser\<close>;
  \<^item> \<open>fs p\<close> is the file at path \<open>p\<close>: missing, there and not readable, or readable
    with its text;
  \<^item> \<open>json_load\<close> is \<open>json.load\<close> on the text of the file, \<open>None\<close> where it raises
    \<open>JSONDecodeError\<close>;
  \<^item> \<open>authorized_user_info\<close> says whether \<open>info\<close> has the fields
    \<open>Credentials.from_authorized_user_info\<close> requires; it raises \<open>ValueError\<close>
    where not;
  \<^item> \<open>bigquery_Client\<close> and \<open>genai_Client\<close> give the exception the constructor raises
    on these arguments, \<open>None\<close> where it returns the object;
  \<^item> \<open>generate_content\<close> is the answer of \<open>client.models.generate_content\<close>.
\<close>

record 'r env =
  expanduser :: "ustr \<Rightarrow> ustr"
  fs :: "ustr \<Rightarrow> file_status"
  json_load :: "ustr \<Rightarrow> pyval option"
  authorized_user_info :: "pyval \<Rightarrow> bool"
  bigquery_Client :: "ustr \<Rightarrow> Credentials \<Rightarrow> error option"
  genai_Client :: "bool \<Rightarrow> ustr \<Rightarrow> ustr \<Rightarrow> Credentials option \<Rightarrow> error option"
  generate_content :: "GenaiClient \<Rightarrow> request \<Rightarrow> error + 'r"

text \<open>What the process does to the outside, in order: each \<open>open\<close>, each request.\<close>

datatype event = FileOpen ustr | Request GenaiClient request

text \<open>
  The state of the process: the class attribute \<open>ADC_PATH\<close>, computed when the module is
  imported; the single slot of each of the three \<open>lru_cache(maxsize=1)\<close> wrappers (the
  methods take no argument but \<open>cls\<close>, and \<open>lru_cache\<close> stores a result only when the
  call returns); the next free object identity; the events so far.
\<close>

record pstate =
  ADC_PATH :: ustr
  load_credentials_cache :: "Credentials option"
  bigquery_client_cache :: "BigqueryClient option"
  genai_client_cache :: "GenaiClient option"
  next_oid :: nat
  trace :: "event list"

section \<open>class Config\<close>

definition PROJECT_ID :: ustr where
  "PROJECT_ID = str ''commanding-iris-806''"

definition DATASET_ID :: ustr where
  "DATASET_ID = str ''sony_test''"

definition GENAI_LOCATION :: ustr where
  "GENAI_LOCATION = str ''us-central1''"

text \<open>Importing the module: lines 36-38 compute \<open>ADC_PATH\<close>; the caches are empty.\<close>

definition import_module :: "'r env \<Rightarrow> pstate" where
  "import_module env =
     \<lparr>ADC_PATH = expanduser env (str ''~/.config/gcloud/application_default_credentials.json''),
      load_credentials_cache = None,
      bigquery_client_cache = None,
      genai_client_cache = None,
      next_oid = 0,
      trace = []\<rparr>"

text \<open>Lines 43-54.\<close>

definition load_credentials :: "'r env \<Rightarrow> pstate \<Rightarrow> (error + Credentials) \<times> pstate" where
  "load_credentials env s =
     (case load_credentials_cache s of
        Some c \<Rightarrow> (Inr c, s)
      | None \<Rightarrow>
          (let s1 = s\<lparr>trace := trace s @ [FileOpen (ADC_PATH s)]\<rparr> in
           case fs env (ADC_PATH s) of
             Missing \<Rightarrow> (Inl FileNotFoundError, s1)
           | Unreadable \<Rightarrow> (Inl PermissionError, s1)
           | Readable text \<Rightarrow>
               (case json_load env text of
                  None \<Rightarrow> (Inl JSONDecodeError, s1)
                | Some info \<Rightarrow>
                    if authorized_user_info env info
                    then (let c = \<lparr>cred_oid = next_oid s1, cred_info = info\<rparr> in
                          (Inr c, s1\<lparr>next_oid := Suc (next_oid s1),
                                     load_credentials_cache := Some c\<rparr>))
                    else (Inl ValueError, s1))))"

text \<open>Lines 56-66.\<close>

definition bigquery_client :: "'r env \<Rightarrow> pstate \<Rightarrow> (error + BigqueryClient) \<times> pstate" where
  "bigquery_client env s =
     (case bigquery_client_cache s of
        Some b \<Rightarrow> (Inr b, s)
      | None \<Rightarrow>
          (case load_credentials env s of
             (Inl e, s1) \<Rightarrow> (Inl e, s1)
           | (Inr creds, s1) \<Rightarrow>
               (case bigquery_Client env PROJECT_ID creds of
                  Some e \<Rightarrow> (Inl e, s1)
                | None \<Rightarrow>
                    (let b = \<lparr>bq_oid = next_oid s1, bq_project = PROJECT_ID,
                              bq_credentials = creds\<rparr> in
                     (Inr b, s1\<lparr>next_oid := Suc (next_oid s1),
                                bigquery_client_cache := Some b\<rparr>)))))"

text \<open>Lines 68-79.\<close>

definition genai_client :: "'r env \<Rightarrow> pstate \<Rightarrow> (error + GenaiClient) \<times> pstate" where
  "genai_client env s =
     (case genai_client_cache s of
        Some g \<Rightarrow> (Inr g, s)
      | None \<Rightarrow>
          (case genai_Client env True PROJECT_ID GENAI_LOCATION None of
             Some e \<Rightarrow> (Inl e, s)
           | None \<Rightarrow>
               (let g = \<lparr>genai_oid = next_oid s, genai_vertexai = True,
                         genai_project = PROJECT_ID, genai_location = GENAI_LOCATION,
                         genai_credentials = None\<rparr> in
                (Inr g, s\<lparr>next_oid := Suc (next_oid s), genai_client_cache := Some g\<rparr>))))"

section \<open>The request\<close>

text \<open>Lines 81-98. The function has no parameter; \<open>prompt\<close> is the local \<open>""\<close>.\<close>

definition gemini_function_calling_example :: "'r env \<Rightarrow> pstate \<Rightarrow> (error + 'r) \<times> pstate" where
  "gemini_function_calling_example env s =
     (let function_calling_1 = function_calling_example;
          function_calling_2 = PyDict [];
          prompt = [];
          tools_list = [Tool [function_calling_1], Tool [function_calling_2]];
          cfg = \<lparr>tools = tools_list, temperature = FloatLit 3 (- 1)\<rparr>
      in case genai_client env s of
           (Inl e, s1) \<Rightarrow> (Inl e, s1)
         | (Inr client, s1) \<Rightarrow>
             (let req = \<lparr>model = str ''gemini-2.0-flash-lite'', contents = prompt,
                         config = cfg\<rparr>
              in (generate_content env client req,
                  s1\<lparr>trace := trace s1 @ [Request client req]\<rparr>)))"

section \<open>Sequences of calls\<close>

text \<open>
  The five callables of the module, and what a call returns. A process is a sequence of
  calls, each made in the world as it is at that moment.
\<close>

datatype call =
    Call_load_credentials
  | Call_bigquery_client
  | Call_genai_client
  | Call_function_calling_example
  | Call_gemini_function_calling_example

datatype 'r retval =
    RetCredentials Credentials
  | RetBigquery BigqueryClient
  | RetGenai GenaiClient
  | RetSchema pyval
  | RetResponse 'r

fun exec :: "'r env \<Rightarrow> call \<Rightarrow> pstate \<Rightarrow> (error + 'r retval) \<times> pstate" where
  "exec env Call_load_credentials s =
     (case load_credentials env s of (r, s') \<Rightarrow> (map_sum id RetCredentials r, s'))"
| "exec env Call_bigquery_client s =
     (case bigquery_client env s of (r, s') \<Rightarrow> (map_sum id RetBigquery r, s'))"
| "exec env Call_genai_client s =
     (case genai_client env s of (r, s') \<Rightarrow> (map_sum id RetGenai r, s'))"
| "exec env Call_function_calling_example s =
     (Inr (RetSchema function_calling_example), s)"
| "exec env Call_gemini_function_calling_example s =
     (case gemini_function_calling_example env s of (r, s') \<Rightarrow> (map_sum id RetResponse r, s'))"

fun run :: "('r env \<times> call) list \<Rightarrow> pstate \<Rightarrow> pstate" where
  "run [] s = s"
| "run ((env, c) # h) s = run h (snd (exec env c s))"

text \<open>The paths opened and the requests sent, in order.\<close>

fun file_opens :: "event list \<Rightarrow> ustr list" where
  "file_opens [] = []"
| "file_opens (FileOpen p # es) = p # file_opens es"
| "file_opens (Request g r # es) = file_opens es"

fun requests :: "event list \<Rightarrow> (GenaiClient \<times> request) list" where
  "requests [] = []"
| "requests (FileOpen p # es) = requests es"
| "requests (Request g r # es) = (g, r) # requests es"

section \<open>The credentials file, as the specification speaks of it\<close>

text \<open>
  The path does not exist or is unreadable; the content is not valid JSON or lacks the
  required authorization fields.
\<close>

definition file_inaccessible :: "'r env \<Rightarrow> ustr \<Rightarrow> bool" where
  "file_inaccessible env p = (fs env p = Missing \<or> fs env p = Unreadable)"

definition content_unparsable :: "'r env \<Rightarrow> ustr \<Rightarrow> bool" where
  "content_unparsable env p =
     (case fs env p of
        Readable text \<Rightarrow>
          (case json_load env text of
             None \<Rightarrow> True
           | Some info \<Rightarrow> \<not> authorized_user_info env info)
      | _ \<Rightarrow> False)"

text \<open>A call fails, with an exception of the given class.\<close>

definition fails_with :: "(error \<Rightarrow> bool) \<Rightarrow> error + 'a \<Rightarrow> bool" where
  "fails_with P r = (case r of Inl e \<Rightarrow> P e | Inr v \<Rightarrow> False)"

text \<open>The file at \<open>p\<close> is missing at every call of a history.\<close>

definition missing_throughout :: "ustr \<Rightarrow> ('r env \<times> call) list \<Rightarrow> bool" where
  "missing_throughout p h = list_all (\<lambda>(env, c). fs env p = Missing) h"

section \<open>Two worlds to run the module in\<close>

text \<open>
  A credentials file of an authorized user, as text and as \<open>json.load\<close> parses it.
\<close>

definition quoted :: "string \<Rightarrow> ustr" where
  "quoted cs = [0x22] @ str cs @ [0x22]"

definition adc_text :: ustr where
  "adc_text =
     str ''{'' @ quoted ''client_id'' @ str '': '' @ quoted ''id'' @ str '', ''
       @ quoted ''client_secret'' @ str '': '' @ quoted ''secret'' @ str '', ''
       @ quoted ''refresh_token'' @ str '': '' @ quoted ''token'' @ str '', ''
       @ quoted ''type'' @ str '': '' @ quoted ''authorized_user'' @ str ''}''"

definition adc_info :: pyval where
  "adc_info = PyDict [
     (str ''client_id'', PyStr (str ''id'')),
     (str ''client_secret'', PyStr (str ''secret'')),
     (str ''refresh_token'', PyStr (str ''token'')),
     (str ''type'', PyStr (str ''authorized_user''))]"

text \<open>
  A world where the home directory is \<open>/home/user\<close>, the credentials file is there and
  well-formed, both constructors return, and the service echoes the request it is sent.
\<close>

definition echo_env :: "request env" where
  "echo_env =
     \<lparr>expanduser = (\<lambda>p. str ''/home/user'' @ drop 1 p),
      fs = (\<lambda>p. if p = str ''/home/user/.config/gcloud/application_default_credentials.json''
                 then Readable adc_text else Missing),
      json_load = (\<lambda>t. if t = adc_text then Some adc_info else None),
      authorized_user_info =
        (\<lambda>info. dict_get info (str ''refresh_token'') \<noteq> None
              \<and> dict_get info (str ''client_id'') \<noteq> None
              \<and> dict_get info (str ''client_secret'') \<noteq> None),
      bigquery_Client = (\<lambda>p c. None),
      genai_Client = (\<lambda>v p l c. None),
      generate_content = (\<lambda>g r. Inr r)\<rparr>"

text \<open>The same world with no file anywhere, and with a credentials file that is not JSON.\<close>

definition missing_file_env :: "request env" where
  "missing_file_env = echo_env\<lparr>fs := (\<lambda>p. Missing)\<rparr>"

definition garbled_file_env :: "request env" where
  "garbled_file_env = echo_env\<lparr>fs := (\<lambda>p. Readable (str ''not json''))\<rparr>"

text \<open>A world whose \<open>genai.Client\<close> constructor raises.\<close>

definition no_genai_env :: "request env" where
  "no_genai_env =
     echo_env\<lparr>genai_Client := (\<lambda>v p l c. Some (LibraryError (str ''no default credentials'')))\<rparr>"

text \<open>A world whose \<open>bigquery.Client\<close> constructor raises.\<close>

definition no_bigquery_env :: "request env" where
  "no_bigquery_env =
     echo_env\<lparr>bigquery_Client := (\<lambda>p c. Some (LibraryError (str ''invalid credentials'')))\<rparr>"

section \<open>States and a history to run the module through\<close>

text \<open>
  The states after the first call of each accessor in the echoing world, the objects
  those calls return, and a history of later calls in worlds where the file is gone or
  garbled.
\<close>

definition warm_state :: pstate where
  "warm_state = snd (load_credentials echo_env (import_module echo_env))"

definition bigquery_state :: pstate where
  "bigquery_state = snd (bigquery_client echo_env (import_module echo_env))"

definition genai_state :: pstate where
  "genai_state = snd (genai_client echo_env (import_module echo_env))"

definition echo_credentials :: Credentials where
  "echo_credentials = \<lparr>cred_oid = 0, cred_info = adc_info\<rparr>"

definition echo_bigquery_client :: BigqueryClient where
  "echo_bigquery_client =
     \<lparr>bq_oid = 1, bq_project = str ''commanding-iris-806'', bq_credentials = echo_credentials\<rparr>"

definition echo_genai_client :: GenaiClient where
  "echo_genai_client =
     \<lparr>genai_oid = 0, genai_vertexai = True, genai_project = str ''commanding-iris-806'',
      genai_location = str ''us-central1'', genai_credentials = None\<rparr>"

definition later_calls :: "(request env \<times> call) list" where
  "later_calls =
     [(missing_file_env, Call_load_credentials),
      (missing_file_env, Call_bigquery_client),
      (garbled_file_env, Call_gemini_function_calling_example),
      (missing_file_env, Call_function_calling_example),
      (no_genai_env, Call_genai_client)]"

text \<open>A history of calls, all in the world with no file.\<close>

definition missing_calls :: "(request env \<times> call) list" where
  "missing_calls =
     [(missing_file_env, Call_bigquery_client),
      (missing_file_env, Call_genai_client),
      (missing_file_env, Call_load_credentials),
      (missing_file_env, Call_gemini_function_calling_example)]"

section \<open>Frames and caches\<close>

lemma file_opens_append: "file_opens (xs @ ys) = file_opens xs @ file_opens ys"
  by (induction xs rule: file_opens.induct) auto

lemma requests_append: "requests (xs @ ys) = requests xs @ requests ys"
  by (induction xs rule: requests.induct) auto

lemma load_credentials_fills_cache:
  "load_credentials env s = (Inr c, s1) \<Longrightarrow> load_credentials_cache s1 = Some c"
  by (auto simp: load_credentials_def Let_def split: option.splits file_status.splits if_splits)

lemma load_credentials_cached:
  "load_credentials_cache s = Some c \<Longrightarrow> load_credentials env s = (Inr c, s)"
  by (simp add: load_credentials_def)

lemma bigquery_client_fills_cache:
  "bigquery_client env s = (Inr b, s1) \<Longrightarrow> bigquery_client_cache s1 = Some b"
  by (auto simp: bigquery_client_def Let_def split: option.splits sum.splits prod.splits)

lemma bigquery_client_cached:
  "bigquery_client_cache s = Some b \<Longrightarrow> bigquery_client env s = (Inr b, s)"
  by (simp add: bigquery_client_def)

lemma genai_client_fills_cache:
  "genai_client env s = (Inr g, s1) \<Longrightarrow> genai_client_cache s1 = Some g"
  by (auto simp: genai_client_def Let_def split: option.splits)

lemma genai_client_cached:
  "genai_client_cache s = Some g \<Longrightarrow> genai_client env s = (Inr g, s)"
  by (simp add: genai_client_def)

text \<open>What each callable leaves alone.\<close>

lemma load_credentials_frame:
  assumes "load_credentials env s = (r, s1)"
  shows "bigquery_client_cache s1 = bigquery_client_cache s"
    and "genai_client_cache s1 = genai_client_cache s"
    and "ADC_PATH s1 = ADC_PATH s"
    and "requests (trace s1) = requests (trace s)"
  using assms
  by (auto simp: load_credentials_def Let_def requests_append
      split: option.splits file_status.splits if_splits)

lemma genai_client_frame:
  assumes "genai_client env s = (r, s1)"
  shows "load_credentials_cache s1 = load_credentials_cache s"
    and "bigquery_client_cache s1 = bigquery_client_cache s"
    and "ADC_PATH s1 = ADC_PATH s"
    and "trace s1 = trace s"
  using assms
  by (auto simp: genai_client_def Let_def split: option.splits)

lemma bigquery_client_frame:
  assumes "bigquery_client env s = (r, s1)"
  shows "genai_client_cache s1 = genai_client_cache s"
    and "ADC_PATH s1 = ADC_PATH s"
    and "requests (trace s1) = requests (trace s)"
  using assms
  by (auto simp: bigquery_client_def Let_def
      split: option.splits sum.splits prod.splits
      dest: load_credentials_frame)

lemma gemini_frame:
  assumes "gemini_function_calling_example env s = (r, s1)"
  shows "load_credentials_cache s1 = load_credentials_cache s"
    and "bigquery_client_cache s1 = bigquery_client_cache s"
    and "ADC_PATH s1 = ADC_PATH s"
    and "file_opens (trace s1) = file_opens (trace s)"
  using assms
  by (auto simp: gemini_function_calling_example_def Let_def file_opens_append
      split: sum.splits prod.splits
      dest: genai_client_frame)

text \<open>A filled slot stays as it is, whatever is called next.\<close>

lemma bigquery_client_keeps_credentials:
  assumes "load_credentials_cache s = Some c" and "bigquery_client env s = (r, s1)"
  shows "load_credentials_cache s1 = Some c" and "trace s1 = trace s"
  using assms
  by (auto simp: bigquery_client_def Let_def load_credentials_cached
      split: option.splits)

lemma exec_keeps_credentials:
  assumes "load_credentials_cache s = Some c"
  shows "load_credentials_cache (snd (exec env k s)) = Some c"
    and "file_opens (trace (snd (exec env k s))) = file_opens (trace s)"
  using assms
  by (cases k;
      auto simp: load_credentials_cached split: prod.splits
        dest: bigquery_client_keeps_credentials genai_client_frame gemini_frame)+

lemma exec_keeps_bigquery:
  assumes "bigquery_client_cache s = Some b"
  shows "bigquery_client_cache (snd (exec env k s)) = Some b"
  using assms
  by (cases k;
      auto simp: bigquery_client_cached split: prod.splits
        dest: load_credentials_frame genai_client_frame gemini_frame)

lemma gemini_keeps_genai:
  assumes "genai_client_cache s = Some g" and "gemini_function_calling_example env s = (r, s1)"
  shows "genai_client_cache s1 = Some g"
  using assms
  by (auto simp: gemini_function_calling_example_def Let_def genai_client_cached)

lemma exec_keeps_genai:
  assumes "genai_client_cache s = Some g"
  shows "genai_client_cache (snd (exec env k s)) = Some g"
  using assms
  by (cases k;
      auto simp: genai_client_cached split: prod.splits
        dest: load_credentials_frame bigquery_client_frame gemini_keeps_genai)

lemma run_keeps_credentials:
  "load_credentials_cache s = Some c \<Longrightarrow>
   load_credentials_cache (run h s) = Some c \<and> file_opens (trace (run h s)) = file_opens (trace s)"
proof (induction h arbitrary: s)
  case Nil
  then show ?case by simp
next
  case (Cons x h)
  obtain env k where x: "x = (env, k)" by (cases x)
  from Cons.prems have "load_credentials_cache (snd (exec env k s)) = Some c"
    and "file_opens (trace (snd (exec env k s))) = file_opens (trace s)"
    by (rule exec_keeps_credentials)+
  with Cons.IH [of "snd (exec env k s)"] x show ?case by simp
qed

lemma run_keeps_bigquery:
  "bigquery_client_cache s = Some b \<Longrightarrow> bigquery_client_cache (run h s) = Some b"
proof (induction h arbitrary: s)
  case Nil
  then show ?case by simp
next
  case (Cons x h)
  obtain env k where x: "x = (env, k)" by (cases x)
  from Cons.prems have "bigquery_client_cache (snd (exec env k s)) = Some b"
    by (rule exec_keeps_bigquery)
  with Cons.IH [of "snd (exec env k s)"] x show ?case by simp
qed

lemma run_keeps_genai:
  "genai_client_cache s = Some g \<Longrightarrow> genai_client_cache (run h s) = Some g"
proof (induction h arbitrary: s)
  case Nil
  then show ?case by simp
next
  case (Cons x h)
  obtain env k where x: "x = (env, k)" by (cases x)
  from Cons.prems have "genai_client_cache (snd (exec env k s)) = Some g"
    by (rule exec_keeps_genai)
  with Cons.IH [of "snd (exec env k s)"] x show ?case by simp
qed

lemma load_credentials_opens_once:
  "load_credentials env s = (r, s1) \<Longrightarrow>
   length (file_opens (trace s1)) \<le> Suc (length (file_opens (trace s)))"
  by (auto simp: load_credentials_def Let_def file_opens_append
      split: option.splits file_status.splits if_splits)

text \<open>While the file is missing, the credentials and BigQuery slots stay empty.\<close>

lemma load_credentials_missing:
  assumes "load_credentials_cache s = None" and "fs env (ADC_PATH s) = Missing"
  shows "load_credentials env s =
    (Inl FileNotFoundError, s\<lparr>trace := trace s @ [FileOpen (ADC_PATH s)]\<rparr>)"
  using assms by (simp add: load_credentials_def)

lemma bigquery_client_missing:
  assumes "load_credentials_cache s = None" and "bigquery_client_cache s = None"
    and "fs env (ADC_PATH s) = Missing"
  shows "bigquery_client env s =
    (Inl FileNotFoundError, s\<lparr>trace := trace s @ [FileOpen (ADC_PATH s)]\<rparr>)"
  using assms by (simp add: bigquery_client_def load_credentials_missing)

lemma exec_missing_keeps_empty:
  assumes "load_credentials_cache s = None" and "bigquery_client_cache s = None"
    and "fs env (ADC_PATH s) = Missing"
  shows "load_credentials_cache (snd (exec env k s)) = None"
    and "bigquery_client_cache (snd (exec env k s)) = None"
    and "ADC_PATH (snd (exec env k s)) = ADC_PATH s"
  using assms
  by (cases k;
      auto simp: load_credentials_missing bigquery_client_missing split: prod.splits
        dest: genai_client_frame gemini_frame)+

lemma run_missing_keeps_empty:
  "load_credentials_cache s = None \<Longrightarrow> bigquery_client_cache s = None \<Longrightarrow>
   missing_throughout (ADC_PATH s) h \<Longrightarrow>
   load_credentials_cache (run h s) = None \<and> bigquery_client_cache (run h s) = None
   \<and> ADC_PATH (run h s) = ADC_PATH s"
proof (induction h arbitrary: s)
  case Nil
  then show ?case by simp
next
  case (Cons x h)
  obtain env k where x: "x = (env, k)" by (cases x)
  from Cons.prems x have m: "fs env (ADC_PATH s) = Missing"
    and rest: "missing_throughout (ADC_PATH s) h"
    by (simp_all add: missing_throughout_def)
  let ?s = "snd (exec env k s)"
  from Cons.prems(1,2) m have e: "load_credentials_cache ?s = None"
    "bigquery_client_cache ?s = None" "ADC_PATH ?s = ADC_PATH s"
    by (rule exec_missing_keeps_empty)+
  with rest Cons.IH [of ?s] x show ?case by simp
qed

section \<open>The module run in the echoing world\<close>

lemmas world_defs =
  echo_env_def missing_file_env_def garbled_file_env_def no_genai_env_def
  no_bigquery_env_def
  import_module_def adc_text_def adc_info_def quoted_def str_def
  PROJECT_ID_def GENAI_LOCATION_def Let_def
  echo_credentials_def echo_bigquery_client_def echo_genai_client_def

lemma echo_load:
  "load_credentials echo_env (import_module echo_env) = (Inr echo_credentials, warm_state)"
  by (simp add: warm_state_def load_credentials_def world_defs)

lemma echo_bigquery:
  "bigquery_client echo_env (import_module echo_env) = (Inr echo_bigquery_client, bigquery_state)"
  by (simp add: bigquery_state_def bigquery_client_def load_credentials_def world_defs)

lemma echo_genai:
  "genai_client echo_env (import_module echo_env) = (Inr echo_genai_client, genai_state)"
  by (simp add: genai_state_def genai_client_def world_defs)

section \<open>The tool schema: what it declares\<close>

text \<open>
  C2. The declaration is named \<open>update_session\<close>, and its \<open>required\<close> list is the ten
  names below, each once, in this order, and nothing else.
\<close>

theorem update_session_required_fields:
  "dict_get function_calling_example (str ''name'') = Some (PyStr (str ''update_session''))
   \<and> get_path function_calling_example [str ''parameters'', str ''required''] =
       Some (PyList (map (\<lambda>n. PyStr (str n))
         [''session_end'', ''session_summary_user'', ''consumer_sentiment_score'',
          ''consumer_urgency_score'', ''consumer_purchase_potential_score'',
          ''potential_interest_products'', ''intent'', ''subintent'',
          ''suggested_responses'', ''customer_conversation_tags'']))
   \<and> length required_fields = 10
   \<and> distinct required_fields"
  by (simp add: required_fields_def function_calling_example_def str_def)

text \<open>
  C3. The schema of \<open>subintent\<close> has \<open>maxItems\<close> 3, that of \<open>suggested_responses\<close> has
  \<open>minItems\<close> 1 and \<open>maxItems\<close> 3: an array of \<open>n\<close> items is within the bounds of the
  first exactly when \<open>n\<close> is at most 3, and within those of the second exactly when \<open>n\<close>
  is between 1 and 3.
\<close>

theorem subintent_and_suggested_responses_bounds:
  "dict_get (property_schema (str ''subintent'')) (str ''maxItems'') = Some (PyInt 3)
   \<and> dict_get (property_schema (str ''suggested_responses'')) (str ''minItems'') = Some (PyInt 1)
   \<and> dict_get (property_schema (str ''suggested_responses'')) (str ''maxItems'') = Some (PyInt 3)
   \<and> item_count_ok (property_schema (str ''subintent'')) n = (n \<le> 3)
   \<and> item_count_ok (property_schema (str ''suggested_responses'')) n = (1 \<le> n \<and> n \<le> 3)"
  by (simp add: property_schema_def item_count_ok_def function_calling_example_def str_def)

text \<open>
  C9. The \<open>enum\<close> list of \<open>intent\<close> is, entry by entry and in order, the code of each item
  of \<open>INTENT\<close>, then \<open>". "\<close>, then its label; the \<open>enum\<close> list of \<open>subintent\<close> is the same
  for \<open>SUBINTENT\<close>. \<open>INTENT\<close> has two keys and \<open>SUBINTENT\<close> eight, none repeated.
\<close>

theorem enum_strings_are_taxonomy_entries:
  "dict_get (property_schema (str ''intent'')) (str ''enum'') =
     Some (PyList (map (\<lambda>(k, v). PyStr (k @ str ''. '' @ v)) INTENT))
   \<and> dict_get (property_schema (str ''subintent'')) (str ''enum'') =
     Some (PyList (map (\<lambda>(k, v). PyStr (k @ str ''. '' @ v)) SUBINTENT))
   \<and> length INTENT = 2 \<and> length SUBINTENT = 8
   \<and> distinct (map fst INTENT) \<and> distinct (map fst SUBINTENT)"
  by (simp add: property_schema_def function_calling_example_def str_def INTENT_def SUBINTENT_def)



section \<open>The caches\<close>

text \<open>
  C6. Once \<open>load_credentials\<close> has returned credentials, every later call of it, after
  any sequence of calls of the module in any worlds, returns that same object and leaves
  the state as it is; no file is opened after the successful call, which itself opens the
  file at most once. Once \<open>bigquery_client\<close> or \<open>genai_client\<close> has returned a
  client, every later call of it returns that same object.
\<close>

theorem caches_return_identical_instance:
  "(load_credentials env s = (Inr c, s1) \<longrightarrow>
      load_credentials env' (run h s1) = (Inr c, run h s1)
      \<and> file_opens (trace (run h s1)) = file_opens (trace s1)
      \<and> length (file_opens (trace (run h s1))) \<le> Suc (length (file_opens (trace s))))
   \<and> (bigquery_client env s = (Inr b, s2) \<longrightarrow>
      bigquery_client env' (run h s2) = (Inr b, run h s2))
   \<and> (genai_client env s = (Inr g, s3) \<longrightarrow>
      genai_client env' (run h s3) = (Inr g, run h s3))"
proof (intro conjI impI)
  assume a: "load_credentials env s = (Inr c, s1)"
  then have "load_credentials_cache s1 = Some c"
    by (rule load_credentials_fills_cache)
  then have k: "load_credentials_cache (run h s1) = Some c"
    and o: "file_opens (trace (run h s1)) = file_opens (trace s1)"
    using run_keeps_credentials [of s1 c h] by simp_all
  from k show "load_credentials env' (run h s1) = (Inr c, run h s1)"
    by (rule load_credentials_cached)
  from o show "file_opens (trace (run h s1)) = file_opens (trace s1)" .
  from o load_credentials_opens_once [OF a]
  show "length (file_opens (trace (run h s1))) \<le> Suc (length (file_opens (trace s)))"
    by simp
next
  assume "bigquery_client env s = (Inr b, s2)"
  then have "bigquery_client_cache s2 = Some b"
    by (rule bigquery_client_fills_cache)
  then have "bigquery_client_cache (run h s2) = Some b"
    by (rule run_keeps_bigquery)
  then show "bigquery_client env' (run h s2) = (Inr b, run h s2)"
    by (rule bigquery_client_cached)
next
  assume "genai_client env s = (Inr g, s3)"
  then have "genai_client_cache s3 = Some g"
    by (rule genai_client_fills_cache)
  then have "genai_client_cache (run h s3) = Some g"
    by (rule run_keeps_genai)
  then show "genai_client env' (run h s3) = (Inr g, run h s3)"
    by (rule genai_client_cached)
qed

theorem caches_return_identical_instance_witness:
  "load_credentials echo_env (import_module echo_env) = (Inr echo_credentials, warm_state)
   \<and> load_credentials missing_file_env (run later_calls warm_state) =
     (Inr echo_credentials, run later_calls warm_state)
   \<and> file_opens (trace (run later_calls warm_state)) = file_opens (trace warm_state)
   \<and> bigquery_client echo_env (import_module echo_env) = (Inr echo_bigquery_client, bigquery_state)
   \<and> bigquery_client missing_file_env (run later_calls bigquery_state) =
     (Inr echo_bigquery_client, run later_calls bigquery_state)
   \<and> genai_client echo_env (import_module echo_env) = (Inr echo_genai_client, genai_state)
   \<and> genai_client missing_file_env (run later_calls genai_state) =
     (Inr echo_genai_client, run later_calls genai_state)"
  using echo_load echo_bigquery echo_genai
    caches_return_identical_instance [of echo_env "import_module echo_env"
      echo_credentials warm_state missing_file_env later_calls
      echo_bigquery_client bigquery_state echo_genai_client genai_state]
  by blast

section \<open>The two clients\<close>

text \<open>
  C5. A \<open>bigquery_client\<close> call that constructs a client gives \<open>bigquery.Client\<close> the
  project \<open>commanding-iris-806\<close> and the credentials \<open>load_credentials\<close> returns. A
  \<open>genai_client\<close> call that constructs a client gives \<open>genai.Client\<close>
  \<open>vertexai=True\<close>, the same project and the location \<open>us-central1\<close>, and no
  credentials; it opens no file and leaves the credentials slot alone. What
  \<open>genai_client\<close> returns is the same whatever the credentials file holds and whatever
  credentials are cached.
\<close>

theorem client_authentication_asymmetry:
  "(bigquery_client_cache s = None \<and> bigquery_client env s = (Inr b, s1) \<longrightarrow>
      bq_project b = str ''commanding-iris-806''
      \<and> fst (load_credentials env s) = Inr (bq_credentials b)
      \<and> bigquery_Client env (str ''commanding-iris-806'') (bq_credentials b) = None)
   \<and> (genai_client_cache s = None \<and> genai_client env s = (Inr g, s2) \<longrightarrow>
      genai_vertexai g
      \<and> genai_project g = str ''commanding-iris-806''
      \<and> genai_location g = str ''us-central1''
      \<and> genai_credentials g = None
      \<and> genai_Client env True (str ''commanding-iris-806'') (str ''us-central1'') None = None
      \<and> trace s2 = trace s
      \<and> load_credentials_cache s2 = load_credentials_cache s)
   \<and> fst (genai_client (env\<lparr>fs := f, json_load := j, authorized_user_info := a\<rparr>)
            (s\<lparr>load_credentials_cache := cc\<rparr>)) = fst (genai_client env s)"
proof (intro conjI impI)
  assume a: "bigquery_client_cache s = None \<and> bigquery_client env s = (Inr b, s1)"
  then show "bq_project b = str ''commanding-iris-806''"
    by (auto simp: bigquery_client_def Let_def PROJECT_ID_def
        split: option.splits sum.splits prod.splits)
  from a show "fst (load_credentials env s) = Inr (bq_credentials b)"
    by (auto simp: bigquery_client_def Let_def
        split: option.splits sum.splits prod.splits)
  from a show "bigquery_Client env (str ''commanding-iris-806'') (bq_credentials b) = None"
    by (auto simp: bigquery_client_def Let_def PROJECT_ID_def
        split: option.splits sum.splits prod.splits)
next
  assume a: "genai_client_cache s = None \<and> genai_client env s = (Inr g, s2)"
  then show "genai_vertexai g" "genai_project g = str ''commanding-iris-806''"
    "genai_location g = str ''us-central1''" "genai_credentials g = None"
    "genai_Client env True (str ''commanding-iris-806'') (str ''us-central1'') None = None"
    by (auto simp: genai_client_def Let_def PROJECT_ID_def GENAI_LOCATION_def
        split: option.splits)
  from a show "trace s2 = trace s" "load_credentials_cache s2 = load_credentials_cache s"
    by (auto dest: genai_client_frame)
next
  show "fst (genai_client (env\<lparr>fs := f, json_load := j, authorized_user_info := a\<rparr>)
            (s\<lparr>load_credentials_cache := cc\<rparr>)) = fst (genai_client env s)"
    by (simp add: genai_client_def Let_def split: option.splits)
qed

text \<open>C5 in the echoing world, from the state after import.\<close>

theorem client_authentication_asymmetry_witness:
  "bigquery_client echo_env (import_module echo_env) = (Inr echo_bigquery_client, bigquery_state)
   \<and> bq_project echo_bigquery_client = str ''commanding-iris-806''
   \<and> fst (load_credentials echo_env (import_module echo_env)) =
       Inr (bq_credentials echo_bigquery_client)
   \<and> genai_client echo_env (import_module echo_env) = (Inr echo_genai_client, genai_state)
   \<and> genai_credentials echo_genai_client = None
   \<and> trace genai_state = trace (import_module echo_env)
   \<and> load_credentials_cache genai_state = None"
proof -
  have c: "bigquery_client_cache (import_module echo_env) = None"
    "genai_client_cache (import_module echo_env) = None"
    "load_credentials_cache (import_module echo_env) = None"
    by (simp_all add: import_module_def)
  from c echo_bigquery echo_genai
    client_authentication_asymmetry [of "import_module echo_env" echo_env
      echo_bigquery_client bigquery_state echo_genai_client genai_state]
  show ?thesis by simp
qed

section \<open>A missing credentials file\<close>

text \<open>
  C4, as amended. From a state where neither credentials nor a BigQuery client are
  cached, with the file missing: \<open>load_credentials\<close> fails with
  \<open>FileNotFoundError\<close>, a \<open>FileAccessError\<close>; and after any later calls made while the
  file stays missing, \<open>load_credentials\<close> and \<open>bigquery_client\<close> still fail with it.
  Nothing is said of \<open>genai_client\<close>, which does not read the file.
\<close>

theorem missing_file_fails_credentials_and_bigquery:
  assumes "load_credentials_cache s = None" and "bigquery_client_cache s = None"
    and "fs env (ADC_PATH s) = Missing"
    and "missing_throughout (ADC_PATH s) h" and "fs env' (ADC_PATH s) = Missing"
  shows "fst (load_credentials env s) = Inl FileNotFoundError
    \<and> FileAccessError FileNotFoundError
    \<and> fst (load_credentials env' (run h (snd (load_credentials env s)))) = Inl FileNotFoundError
    \<and> fst (bigquery_client env' (run h (snd (load_credentials env s)))) = Inl FileNotFoundError"
proof -
  let ?s1 = "snd (load_credentials env s)"
  from assms(1,3) have l: "load_credentials env s =
      (Inl FileNotFoundError, s\<lparr>trace := trace s @ [FileOpen (ADC_PATH s)]\<rparr>)"
    by (rule load_credentials_missing)
  with assms have "load_credentials_cache ?s1 = None" "bigquery_client_cache ?s1 = None"
    "missing_throughout (ADC_PATH ?s1) h" "ADC_PATH ?s1 = ADC_PATH s"
    by simp_all
  with run_missing_keeps_empty [of ?s1 h]
  have r: "load_credentials_cache (run h ?s1) = None" "bigquery_client_cache (run h ?s1) = None"
    "ADC_PATH (run h ?s1) = ADC_PATH s"
    by simp_all
  with assms(5) have m: "fs env' (ADC_PATH (run h ?s1)) = Missing" by simp
  from l have "fst (load_credentials env s) = Inl FileNotFoundError" by simp
  moreover have "FileAccessError FileNotFoundError" by (simp add: FileAccessError_def)
  moreover from r(1) m have "fst (load_credentials env' (run h ?s1)) = Inl FileNotFoundError"
    by (simp add: load_credentials_missing)
  moreover from r(1,2) m have "fst (bigquery_client env' (run h ?s1)) = Inl FileNotFoundError"
    by (simp add: bigquery_client_missing)
  ultimately show ?thesis by simp
qed

text \<open>C4 as amended, in the world with no file, from the state after import.\<close>

theorem missing_file_fails_credentials_and_bigquery_witness:
  "fst (load_credentials missing_file_env (import_module missing_file_env)) = Inl FileNotFoundError
   \<and> fst (bigquery_client missing_file_env
        (run missing_calls (snd (load_credentials missing_file_env
           (import_module missing_file_env))))) = Inl FileNotFoundError"
proof -
  have "load_credentials_cache (import_module missing_file_env) = None"
    and "bigquery_client_cache (import_module missing_file_env) = None"
    and "fs missing_file_env (ADC_PATH (import_module missing_file_env)) = Missing"
    and "missing_throughout (ADC_PATH (import_module missing_file_env)) missing_calls"
    by (simp_all add: import_module_def missing_file_env_def missing_throughout_def
        missing_calls_def)
  then show ?thesis
    using missing_file_fails_credentials_and_bigquery
      [of "import_module missing_file_env" missing_file_env missing_calls missing_file_env]
    by simp
qed

text \<open>
  C4 as stated fails twice. With no file anywhere and nothing cached,
  \<open>load_credentials\<close> fails and the \<open>genai_client\<close> call after it returns a client.
  And with credentials cached by an earlier call, \<open>load_credentials\<close> returns them
  although the file is now missing.
\<close>

theorem genai_client_succeeds_without_file:
  "fs missing_file_env (ADC_PATH (import_module missing_file_env)) = Missing
   \<and> fst (load_credentials missing_file_env (import_module missing_file_env)) =
       Inl FileNotFoundError
   \<and> fst (genai_client missing_file_env
        (snd (load_credentials missing_file_env (import_module missing_file_env)))) =
       Inr echo_genai_client
   \<and> fs missing_file_env (ADC_PATH warm_state) = Missing
   \<and> fst (load_credentials missing_file_env warm_state) = Inr echo_credentials"
  by (simp add: warm_state_def load_credentials_def genai_client_def world_defs)

section \<open>Failures of \<open>load_credentials\<close> and their propagation\<close>

text \<open>
  C7 as stated fails once credentials are cached: the file is then missing, or garbled,
  and \<open>load_credentials\<close> returns the cached credentials and raises nothing.
\<close>

theorem cached_credentials_hide_the_file:
  "file_inaccessible missing_file_env (ADC_PATH warm_state)
   \<and> fst (load_credentials missing_file_env warm_state) = Inr echo_credentials
   \<and> \<not> fails_with FileAccessError (fst (load_credentials missing_file_env warm_state))
   \<and> content_unparsable garbled_file_env (ADC_PATH warm_state)
   \<and> fst (load_credentials garbled_file_env warm_state) = Inr echo_credentials
   \<and> \<not> fails_with ParseError (fst (load_credentials garbled_file_env warm_state))"
  by (simp add: warm_state_def load_credentials_def world_defs fails_with_def
      file_inaccessible_def content_unparsable_def)

text \<open>
  C7, as amended. A \<open>load_credentials\<close> call that finds no cached credentials fails with
  a \<open>FileAccessError\<close> exactly when the path does not exist or is unreadable, with a
  \<open>ParseError\<close> exactly when the content is not valid JSON or lacks the required
  fields, and fails in no other case. No failure is caught:
  \<open>bigquery_client\<close> fails with the exception of \<open>load_credentials\<close> or of
  \<open>bigquery.Client\<close>, \<open>genai_client\<close> with that of \<open>genai.Client\<close>, and
  \<open>gemini_function_calling_example\<close> with that of \<open>genai_client\<close>, or else returns
  what \<open>generate_content\<close> gives, an exception included.
\<close>

theorem load_credentials_failures:
  "(load_credentials_cache s = None \<longrightarrow>
      fails_with FileAccessError (fst (load_credentials env s)) =
        file_inaccessible env (ADC_PATH s)
      \<and> fails_with ParseError (fst (load_credentials env s)) =
        content_unparsable env (ADC_PATH s)
      \<and> isl (fst (load_credentials env s)) =
        (file_inaccessible env (ADC_PATH s) \<or> content_unparsable env (ADC_PATH s)))
   \<and> (bigquery_client_cache s = None \<and> fst (load_credentials env s) = Inl e \<longrightarrow>
      fst (bigquery_client env s) = Inl e)
   \<and> (bigquery_client_cache s = None \<and> load_credentials env s = (Inr c, s1)
       \<and> bigquery_Client env PROJECT_ID c = Some e \<longrightarrow>
      fst (bigquery_client env s) = Inl e)
   \<and> (genai_client_cache s = None
       \<and> genai_Client env True PROJECT_ID GENAI_LOCATION None = Some e \<longrightarrow>
      fst (genai_client env s) = Inl e)
   \<and> (fst (genai_client env s) = Inl e \<longrightarrow>
      fst (gemini_function_calling_example env s) = Inl e)
   \<and> (genai_client env s = (Inr g, s2) \<longrightarrow>
      (\<exists>r. fst (gemini_function_calling_example env s) = generate_content env g r))"
proof (intro conjI impI)
  assume n: "load_credentials_cache s = None"
  then show "fails_with FileAccessError (fst (load_credentials env s)) =
      file_inaccessible env (ADC_PATH s)"
    by (auto simp: load_credentials_def Let_def fails_with_def FileAccessError_def
        file_inaccessible_def split: file_status.splits option.splits)
  from n show "fails_with ParseError (fst (load_credentials env s)) =
      content_unparsable env (ADC_PATH s)"
    by (auto simp: load_credentials_def Let_def fails_with_def ParseError_def
        content_unparsable_def split: file_status.splits option.splits)
  from n show "isl (fst (load_credentials env s)) =
      (file_inaccessible env (ADC_PATH s) \<or> content_unparsable env (ADC_PATH s))"
    by (auto simp: load_credentials_def Let_def file_inaccessible_def
        content_unparsable_def split: file_status.splits option.splits)
next
  assume "bigquery_client_cache s = None \<and> fst (load_credentials env s) = Inl e"
  then show "fst (bigquery_client env s) = Inl e"
    by (cases "load_credentials env s") (simp add: bigquery_client_def)
next
  assume "bigquery_client_cache s = None \<and> load_credentials env s = (Inr c, s1)
       \<and> bigquery_Client env PROJECT_ID c = Some e"
  then show "fst (bigquery_client env s) = Inl e"
    by (simp add: bigquery_client_def)
next
  assume "genai_client_cache s = None
       \<and> genai_Client env True PROJECT_ID GENAI_LOCATION None = Some e"
  then show "fst (genai_client env s) = Inl e"
    by (simp add: genai_client_def)
next
  assume "fst (genai_client env s) = Inl e"
  then show "fst (gemini_function_calling_example env s) = Inl e"
    by (cases "genai_client env s") (simp add: gemini_function_calling_example_def)
next
  assume "genai_client env s = (Inr g, s2)"
  then show "\<exists>r. fst (gemini_function_calling_example env s) = generate_content env g r"
    by (auto simp: gemini_function_calling_example_def Let_def)
qed

text \<open>C7 as amended, in the worlds with a missing file, a garbled file, and a failing
  constructor, and in the echoing world.\<close>

theorem load_credentials_failures_witness:
  "fails_with FileAccessError
     (fst (load_credentials missing_file_env (import_module missing_file_env)))
   \<and> fst (bigquery_client missing_file_env (import_module missing_file_env)) =
       Inl FileNotFoundError
   \<and> fails_with ParseError
       (fst (load_credentials garbled_file_env (import_module garbled_file_env)))
   \<and> fst (bigquery_client no_bigquery_env (import_module no_bigquery_env)) =
       Inl (LibraryError (str ''invalid credentials''))
   \<and> fst (gemini_function_calling_example no_genai_env (import_module no_genai_env)) =
       Inl (LibraryError (str ''no default credentials''))
   \<and> (\<exists>r. fst (gemini_function_calling_example echo_env (import_module echo_env)) =
        generate_content echo_env echo_genai_client r)"
proof -
  have empty: "load_credentials_cache (import_module env) = None"
    "bigquery_client_cache (import_module env) = None"
    "genai_client_cache (import_module env) = None" for env :: "request env"
    by (simp_all add: import_module_def)
  have missing: "file_inaccessible missing_file_env (ADC_PATH (import_module missing_file_env))"
    "fst (load_credentials missing_file_env (import_module missing_file_env)) =
       Inl FileNotFoundError"
    by (simp_all add: file_inaccessible_def load_credentials_def world_defs)
  have garbled: "content_unparsable garbled_file_env (ADC_PATH (import_module garbled_file_env))"
    by (simp add: content_unparsable_def world_defs)
  have bq: "load_credentials no_bigquery_env (import_module no_bigquery_env) =
      (Inr echo_credentials, snd (load_credentials no_bigquery_env (import_module no_bigquery_env)))"
    "bigquery_Client no_bigquery_env PROJECT_ID echo_credentials =
      Some (LibraryError (str ''invalid credentials''))"
    by (simp_all add: load_credentials_def world_defs)
  have genai: "genai_Client no_genai_env True PROJECT_ID GENAI_LOCATION None =
      Some (LibraryError (str ''no default credentials''))"
    by (simp add: world_defs)
  note t = load_credentials_failures
  from empty missing
    t [of "import_module missing_file_env" missing_file_env FileNotFoundError]
  have 1: "fails_with FileAccessError
       (fst (load_credentials missing_file_env (import_module missing_file_env)))"
    "fst (bigquery_client missing_file_env (import_module missing_file_env)) =
       Inl FileNotFoundError"
    by blast+
  from empty garbled t [of "import_module garbled_file_env" garbled_file_env]
  have 2: "fails_with ParseError
       (fst (load_credentials garbled_file_env (import_module garbled_file_env)))"
    by blast
  from empty bq
    t [of "import_module no_bigquery_env" no_bigquery_env
         "LibraryError (str ''invalid credentials'')" echo_credentials
         "snd (load_credentials no_bigquery_env (import_module no_bigquery_env))"]
  have 3: "fst (bigquery_client no_bigquery_env (import_module no_bigquery_env)) =
       Inl (LibraryError (str ''invalid credentials''))"
    by blast
  from empty genai
    t [of "import_module no_genai_env" no_genai_env
         "LibraryError (str ''no default credentials'')"]
  have 4: "fst (gemini_function_calling_example no_genai_env (import_module no_genai_env)) =
       Inl (LibraryError (str ''no default credentials''))"
    by blast
  from echo_genai
    t [of "import_module echo_env" echo_env _ _ _ echo_genai_client genai_state]
  have 5: "\<exists>r. fst (gemini_function_calling_example echo_env (import_module echo_env)) =
        generate_content echo_env echo_genai_client r"
    by blast
  from 1 2 3 4 5 show ?thesis by blast
qed

section \<open>The request, as sent\<close>

text \<open>
  C1, as amended. \<open>gemini_function_calling_example\<close> takes no prompt. When
  \<open>genai_client\<close> returns a client, it sends that client exactly one request and returns
  what \<open>generate_content\<close> answers, unchanged. The request names the model
  \<open>gemini-2.0-flash-lite\<close>, carries the empty string as its contents, and has a
  configuration of temperature 0.3 and two tools: the first declares the schema of
  \<open>function_calling_example\<close>, the second the empty dict.
\<close>

theorem gemini_function_calling_example_request:
  assumes "genai_client env s = (Inr client, s1)"
  shows "\<exists>req. gemini_function_calling_example env s =
             (generate_content env client req, s1\<lparr>trace := trace s1 @ [Request client req]\<rparr>)
           \<and> requests (trace (snd (gemini_function_calling_example env s))) =
               requests (trace s) @ [(client, req)]
           \<and> model req = str ''gemini-2.0-flash-lite''
           \<and> contents req = []
           \<and> temperature (config req) = FloatLit 3 (- 1)
           \<and> tools (config req) = [Tool [function_calling_example], Tool [PyDict []]]
           \<and> length (tools (config req)) = 2"
proof -
  from assms have "trace s1 = trace s" by (rule genai_client_frame)
  with assms show ?thesis
    by (simp add: gemini_function_calling_example_def Let_def requests_append)
qed

text \<open>C1 as amended, in the echoing world, from the state after import.\<close>

theorem gemini_function_calling_example_request_witness:
  "genai_client echo_env (import_module echo_env) = (Inr echo_genai_client, genai_state)
   \<and> (\<exists>req. gemini_function_calling_example echo_env (import_module echo_env) =
             (generate_content echo_env echo_genai_client req,
              genai_state\<lparr>trace := trace genai_state @ [Request echo_genai_client req]\<rparr>)
           \<and> requests (trace (snd (gemini_function_calling_example echo_env
                 (import_module echo_env)))) =
               requests (trace (import_module echo_env)) @ [(echo_genai_client, req)]
           \<and> model req = str ''gemini-2.0-flash-lite''
           \<and> contents req = []
           \<and> temperature (config req) = FloatLit 3 (- 1)
           \<and> tools (config req) = [Tool [function_calling_example], Tool [PyDict []]]
           \<and> length (tools (config req)) = 2)"
  using echo_genai
    gemini_function_calling_example_request [of echo_env "import_module echo_env"
      echo_genai_client genai_state]
  by blast

text \<open>
  C1 as stated fails: the function has no parameter to take a prompt through, and the
  request it sends carries the empty string, not, say, the prompt \<open>test prompt\<close> a
  caller has in mind. The echoing world returns the request as sent.
\<close>

theorem gemini_request_carries_empty_prompt:
  "fst (gemini_function_calling_example echo_env (import_module echo_env)) =
     Inr \<lparr>model = str ''gemini-2.0-flash-lite'', contents = [],
          config = \<lparr>tools = [Tool [function_calling_example], Tool [PyDict []]],
                    temperature = FloatLit 3 (- 1)\<rparr>\<rparr>
   \<and> map (contents \<circ> snd)
       (requests (trace (snd (gemini_function_calling_example echo_env
          (import_module echo_env))))) = [[]]
   \<and> [] \<noteq> str ''test prompt''"
  by (simp add: gemini_function_calling_example_def genai_client_def world_defs)

end
